theory Spec2Isabelle
  imports Complex_Main
begin

section \<open>JavaScript numbers\<close>

text \<open>
  Prices, totals, commissions and payouts are JavaScript \<^verbatim>\<open>Number\<close>s: IEEE-754 binary64
  values. A finite double is a real number, and every arithmetic operation of the source
  returns the exact result rounded to the nearest double, ties to even. The rounding is a
  parameter \<open>rnd\<close> of every function that computes with prices: \<open>to_double\<close> is the
  rounding of the JavaScript runtime, the identity is arithmetic without rounding.
  Quantities are integers (the cart stores \<^verbatim>\<open>parseInt\<close> results). A stock count is a
  \<^verbatim>\<open>Number\<close> as well: the vendor routes store \<^verbatim>\<open>parseInt(stock)\<close>, which has no upper
  bound, and the database adds to it as it adds doubles, so a stock count is a real number
  and every addition to it is rounded.
  Results of magnitude \<open>2 ^ 1024\<close> and more (\<^verbatim>\<open>Infinity\<close>) and \<^verbatim>\<open>NaN\<close> are not modelled.
\<close>

definition round_half_even :: "real \<Rightarrow> int" where
  "round_half_even x =
     (let f = \<lfloor>x\<rfloor>; d = x - of_int f
      in if d < 1 / 2 then f else if 1 / 2 < d then f + 1 else if even f then f else f + 1)"

definition scale2 :: "int \<Rightarrow> real" where
  "scale2 e = (if 0 \<le> e then 2 ^ nat e else 1 / 2 ^ nat (- e))"

text \<open>
  \<open>binade n x e\<close> searches, in at most \<open>n\<close> steps from \<open>e\<close>, the exponent at which the
  significand of the positive number \<open>x * 2 ^ e\<close> has 53 bits: it lies in
  \<open>[2 ^ 52, 2 ^ 53)\<close>.
\<close>

fun binade :: "nat \<Rightarrow> real \<Rightarrow> int \<Rightarrow> int" where
  "binade 0 x e = e"
| "binade (Suc n) x e =
     (if 9007199254740992 \<le> x then binade n (x / 2) (e + 1)
      else if x < 4503599627370496 then binade n (x * 2) (e - 1)
      else e)"

text \<open>The exponent of a double is at least \<open>- 1074\<close> (subnormal numbers).\<close>

definition to_double :: "real \<Rightarrow> real" where
  "to_double x =
     (if x = 0 then 0
      else let e = max (binade 2200 \<bar>x\<bar> 0) (- 1074);
               m = round_half_even (\<bar>x\<bar> / scale2 e)
           in sgn x * of_int m * scale2 e)"


section \<open>Documents\<close>

type_synonym oid = string

text \<open>\<^verbatim>\<open>models/VendorProduct.js\<close>: a vendor's listing; its \<^verbatim>\<open>_id\<close> is the key of the collection.\<close>

record vendorProduct =
  vp_vendorId :: oid
  vp_productId :: oid
  vp_price :: real
  vp_stock :: real

text \<open>A line of \<^verbatim>\<open>req.session.cart\<close> (\<^verbatim>\<open>routes/cart.js\<close>), with the fields checkout reads.\<close>

record cartItem =
  ci_vendorProductId :: oid
  ci_qty :: int
  ci_productName :: string

text \<open>
  \<^verbatim>\<open>models/Order.js\<close>. The schema of a line has no \<^verbatim>\<open>productName\<close> and no
  \<^verbatim>\<open>storeName\<close>: the strict schema drops them from what \<^verbatim>\<open>create-order\<close> pushes.
\<close>

record orderItem =
  item_vendorProductId :: oid
  item_productId :: oid
  item_vendorId :: oid
  item_price :: real
  item_qty :: int

datatype orderStatus = Pending | Paid | Shipped | Delivered | Cancelled

record order =
  ord_userId :: oid
  ord_items :: "orderItem list"
  ord_totalAmount :: real
  ord_status :: orderStatus
  ord_paymentType :: string
  ord_razorpayOrderId :: string
  ord_razorpayPaymentId :: "string option"
  ord_paidAt :: "string option"

text \<open>
  \<^verbatim>\<open>models/Payment.js\<close>. A document is built before it is validated, so the required paths
  may be absent and the status is any string until \<^verbatim>\<open>save\<close> checks it.
\<close>

record vendorPayout =
  po_vendorId :: oid
  po_amount :: real
  po_commission :: real
  po_netAmount :: real
  po_status :: string

record payment =
  pay_orderId :: oid
  pay_userId :: "oid option"
  pay_razorpayOrderId :: "string option"
  pay_razorpayPaymentId :: "string option"
  pay_razorpaySignature :: "string option"
  pay_amount :: real
  pay_status :: string
  pay_vendorPayouts :: "vendorPayout list"

text \<open>\<^verbatim>\<open>models/Review.js\<close>.\<close>

record review =
  rev_userId :: oid
  rev_orderId :: oid
  rev_vendorId :: oid
  rev_productId :: oid
  rev_vendorProductId :: oid
  rev_rating :: int
  rev_comment :: string

text \<open>
  The collections and the four response caches of \<^verbatim>\<open>middleware/cache.js\<close>. \<open>products\<close> and
  \<open>vendors\<close> hold what \<^verbatim>\<open>populate\<close> reads: the name of a catalog product, the store name
  of a vendor. A cached response is its JSON text.
\<close>

record state =
  listings :: "oid \<rightharpoonup> vendorProduct"
  products :: "oid \<rightharpoonup> string"
  vendors :: "oid \<rightharpoonup> string"
  orders :: "oid \<rightharpoonup> order"
  payments :: "payment list"
  reviews :: "review list"
  cache_short :: "string \<rightharpoonup> string"
  cache_medium :: "string \<rightharpoonup> string"
  cache_long :: "string \<rightharpoonup> string"
  cache_session :: "string \<rightharpoonup> string"

text \<open>\<^verbatim>\<open>req.session\<close>: the signed-in user, if any, and the cart.\<close>

record session =
  sess_user :: "oid option"
  sess_cart :: "cartItem list"

text \<open>
  What the process reads from outside the repository: the rounding of its arithmetic, the
  HMAC-SHA256 of \<^verbatim>\<open>crypto\<close> (key, then message, hex digest) and the gateway secret of
  the environment.
\<close>

record runtime =
  rnd :: "real \<Rightarrow> real"
  hmac_sha256_hex :: "string \<Rightarrow> string \<Rightarrow> string"
  RAZORPAY_KEY_SECRET :: "string option"

section \<open>Responses\<close>

text \<open>
  Every error response of the routes, with its HTTP status. \<open>InternalError\<close> is the reply of
  a route's \<^verbatim>\<open>catch\<close> block to anything thrown inside it.
\<close>

datatype error =
    Unauthorized
  | CartEmpty
  | ProductNotFound string
  | InsufficientStock string real
  | OrderNotFound
  | Forbidden
  | InvalidSignature
  | PaymentRecordNotFound
  | ValidationFailed
  | OrderNotPaid
  | ProductNotInOrder
  | ReviewExists
  | VendorNotFound
  | InternalError string

fun http_status :: "error \<Rightarrow> nat" where
  "http_status Unauthorized = 401"
| "http_status CartEmpty = 400"
| "http_status (ProductNotFound n) = 400"
| "http_status (InsufficientStock n k) = 400"
| "http_status OrderNotFound = 404"
| "http_status Forbidden = 403"
| "http_status InvalidSignature = 400"
| "http_status PaymentRecordNotFound = 404"
| "http_status ValidationFailed = 400"
| "http_status OrderNotPaid = 400"
| "http_status ProductNotInOrder = 400"
| "http_status ReviewExists = 400"
| "http_status VendorNotFound = 404"
| "http_status (InternalError m) = 500"

datatype response =
    OrderCreated oid real bool
  | DemoPaymentSuccessful oid
  | PaymentVerifiedOrder oid order
  | PaymentVerified oid
  | ReviewCreated review
  | VendorDeleted

section \<open>Create order\<close>

text \<open>
  The loop of \<^verbatim>\<open>POST /create-order\<close> over the cart. The listings were fetched before the loop
  with \<^verbatim>\<open>populate\<close>; a populated reference whose document is gone is \<^verbatim>\<open>null\<close>, and reading
  its \<^verbatim>\<open>_id\<close> throws into the \<^verbatim>\<open>catch\<close> block.
\<close>

fun order_lines ::
  "(real \<Rightarrow> real) \<Rightarrow> state \<Rightarrow> cartItem list \<Rightarrow> real \<times> orderItem list
     \<Rightarrow> error + real \<times> orderItem list" where
  "order_lines r s [] acc = Inr acc"
| "order_lines r s (item # cart) (totalAmount, orderItems) =
     (case listings s (ci_vendorProductId item) of
        None \<Rightarrow> Inl (ProductNotFound (ci_productName item))
      | Some vp \<Rightarrow>
          if vp_stock vp < of_int (ci_qty item)
          then Inl (InsufficientStock (ci_productName item) (vp_stock vp))
          else if products s (vp_productId vp) = None \<or> vendors s (vp_vendorId vp) = None
          then Inl (InternalError ''Failed to create order'')
          else order_lines r s cart
                 (r (totalAmount + r (vp_price vp * of_int (ci_qty item))),
                  orderItems @
                    [\<lparr>item_vendorProductId = ci_vendorProductId item,
                      item_productId = vp_productId vp,
                      item_vendorId = vp_vendorId vp,
                      item_price = vp_price vp,
                      item_qty = ci_qty item\<rparr>]))"

text \<open>The validators of the order schema that \<^verbatim>\<open>save\<close> runs: \<^verbatim>\<open>qty\<close> min 1, \<^verbatim>\<open>totalAmount\<close> min 0.\<close>

definition validate_order :: "order \<Rightarrow> bool" where
  "validate_order ord \<longleftrightarrow> list_all (\<lambda>it. 1 \<le> item_qty it) (ord_items ord) \<and> 0 \<le> ord_totalAmount ord"

text \<open>
  \<open>gateway\<close> is the id of the order Razorpay opened, or \<open>None\<close> when the keys are not
  configured or the call failed (demo mode). \<open>fresh\<close> is the \<^verbatim>\<open>_id\<close> of the new document and
  \<open>now\<close> the text of \<^verbatim>\<open>Date.now()\<close>. A \<^verbatim>\<open>save\<close> that fails validation, or whose \<^verbatim>\<open>_id\<close> is
  taken, throws into the \<^verbatim>\<open>catch\<close> block.
\<close>

definition create_order ::
  "runtime \<Rightarrow> string option \<Rightarrow> oid \<Rightarrow> string \<Rightarrow> session \<Rightarrow> state \<Rightarrow> (error + response) \<times> state" where
  "create_order rt gateway fresh now sess s =
     (case sess_user sess of
        None \<Rightarrow> (Inl Unauthorized, s)
      | Some uid \<Rightarrow>
          if sess_cart sess = [] then (Inl CartEmpty, s)
          else (case order_lines (rnd rt) s (sess_cart sess) (0, []) of
                  Inl e \<Rightarrow> (Inl e, s)
                | Inr (totalAmount, orderItems) \<Rightarrow>
                    let ord = \<lparr>ord_userId = uid,
                               ord_items = orderItems,
                               ord_totalAmount = totalAmount,
                               ord_status = Pending,
                               ord_paymentType = (if gateway = None then ''demo'' else ''razorpay''),
                               ord_razorpayOrderId =
                                 (case gateway of None \<Rightarrow> ''demo_'' @ now | Some g \<Rightarrow> g),
                               ord_razorpayPaymentId = None,
                               ord_paidAt = None\<rparr>
                    in if \<not> validate_order ord \<or> orders s fresh \<noteq> None
                       then (Inl (InternalError ''Failed to create order''), s)
                       else (Inr (OrderCreated fresh totalAmount (gateway = None)),
                             s\<lparr>orders := (orders s)(fresh \<mapsto> ord)\<rparr>)))"

text \<open>\<^verbatim>\<open>GET /:orderId\<close>: the caller's own order, as stored.\<close>

definition get_order :: "oid \<Rightarrow> session \<Rightarrow> state \<Rightarrow> error + order" where
  "get_order orderId sess s =
     (case sess_user sess of
        None \<Rightarrow> Inl Unauthorized
      | Some uid \<Rightarrow>
          (case orders s orderId of
             None \<Rightarrow> Inl OrderNotFound
           | Some ord \<Rightarrow> if ord_userId ord = uid then Inr ord else Inl OrderNotFound))"

text \<open>The sum of price times quantity over the lines, added up as the source adds.\<close>

definition line_total :: "(real \<Rightarrow> real) \<Rightarrow> orderItem list \<Rightarrow> real" where
  "line_total r items = foldl (\<lambda>sum it. r (sum + r (item_price it * of_int (item_qty it)))) 0 items"

section \<open>Payment confirmation in the orders route\<close>

text \<open>
  \<^verbatim>\<open>VendorProduct.bulkWrite\<close> of one \<^verbatim>\<open>updateOne\<close> with \<^verbatim>\<open>$inc: {stock: -qty}\<close> per order line,
  applied in order. An update whose filter matches no listing changes nothing, and update
  operators run no schema validator. \<^verbatim>\<open>$inc\<close> stores the sum of the stored number and the
  increment, rounded by \<open>r\<close>: a sum of doubles is the nearest double, so a stock count
  beyond \<open>2 ^ 53\<close> need not change by the quantity. (Integers that the database keeps as
  32 or 64 bit integers are added exactly; up to \<open>2 ^ 53\<close> in magnitude that is the same
  number.)
\<close>

definition stockUpdates :: "order \<Rightarrow> (oid \<times> real) list" where
  "stockUpdates ord = map (\<lambda>it. (item_vendorProductId it, - of_int (item_qty it))) (ord_items ord)"

fun bulkWrite ::
  "(real \<Rightarrow> real) \<Rightarrow> (oid \<rightharpoonup> vendorProduct) \<Rightarrow> (oid \<times> real) list \<Rightarrow> (oid \<rightharpoonup> vendorProduct)" where
  "bulkWrite r ls [] = ls"
| "bulkWrite r ls ((i, d) # ups) =
     bulkWrite r
       (case ls i of None \<Rightarrow> ls | Some vp \<Rightarrow> ls(i \<mapsto> vp\<lparr>vp_stock := r (vp_stock vp + d)\<rparr>)) ups"

text \<open>
  The validators of the payment schema that \<^verbatim>\<open>save\<close> runs: \<^verbatim>\<open>userId\<close> and \<^verbatim>\<open>razorpayOrderId\<close>
  (a non-empty string) are required, the status of the payment and of each payout entry is
  one of the schema's enum. The other required paths, \<^verbatim>\<open>orderId\<close> and \<^verbatim>\<open>amount\<close>, are given
  by every route.
\<close>

definition validate_payment :: "payment \<Rightarrow> bool" where
  "validate_payment p \<longleftrightarrow>
     pay_userId p \<noteq> None \<and>
     pay_razorpayOrderId p \<noteq> None \<and> pay_razorpayOrderId p \<noteq> Some [] \<and>
     pay_status p \<in> set [''created'', ''attempted'', ''paid'', ''failed'', ''cancelled''] \<and>
     list_all (\<lambda>po. po_status po \<in> set [''pending'', ''processed'', ''failed''])
       (pay_vendorPayouts p)"

text \<open>
  \<^verbatim>\<open>processVendorPayouts\<close>, first loop: the lines of each vendor, the vendors in the order of
  their first line (the insertion order of the keys of \<^verbatim>\<open>vendorGroups\<close>).
\<close>

fun push_group :: "orderItem \<Rightarrow> (oid \<times> orderItem list) list \<Rightarrow> (oid \<times> orderItem list) list" where
  "push_group it [] = [(item_vendorId it, [it])]"
| "push_group it ((v, its) # gs) =
     (if v = item_vendorId it then (v, its @ [it]) # gs else (v, its) # push_group it gs)"

definition vendorGroups :: "orderItem list \<Rightarrow> (oid \<times> orderItem list) list" where
  "vendorGroups items = foldl (\<lambda>gs it. push_group it gs) [] items"

text \<open>
  Second loop: one \<^verbatim>\<open>new Payment\<close> per vendor, saved at once. \<^verbatim>\<open>vendorId\<close>, \<^verbatim>\<open>commission\<close> and
  \<^verbatim>\<open>type\<close> are no paths of the payment schema and are dropped; \<^verbatim>\<open>userId\<close> and
  \<^verbatim>\<open>razorpayOrderId\<close> are not given. A \<^verbatim>\<open>save\<close> that fails validation throws out of the loop
  into the function's own \<^verbatim>\<open>catch\<close>, which logs and returns: the documents saved before
  stay.
\<close>

definition payout_document :: "(real \<Rightarrow> real) \<Rightarrow> oid \<Rightarrow> orderItem list \<Rightarrow> payment" where
  "payout_document r orderId items =
     (let vendorTotal = foldl (\<lambda>sum it. r (sum + r (item_price it * of_int (item_qty it)))) 0 items;
          commission = r (vendorTotal * r (1 / 100));
          vendorEarning = r (vendorTotal - commission)
      in \<lparr>pay_orderId = orderId,
          pay_userId = None,
          pay_razorpayOrderId = None,
          pay_razorpayPaymentId = None,
          pay_razorpaySignature = None,
          pay_amount = vendorEarning,
          pay_status = ''pending_payout'',
          pay_vendorPayouts = []\<rparr>)"

fun save_payouts ::
  "(real \<Rightarrow> real) \<Rightarrow> oid \<Rightarrow> (oid \<times> orderItem list) list \<Rightarrow> payment list \<Rightarrow> payment list" where
  "save_payouts r orderId [] ps = ps"
| "save_payouts r orderId ((vendorId, items) # gs) ps =
     (let payout = payout_document r orderId items
      in if validate_payment payout then save_payouts r orderId gs (ps @ [payout]) else ps)"

definition processVendorPayouts :: "(real \<Rightarrow> real) \<Rightarrow> oid \<Rightarrow> order \<Rightarrow> state \<Rightarrow> state" where
  "processVendorPayouts r orderId ord s =
     s\<lparr>payments := save_payouts r orderId (vendorGroups (ord_items ord)) (payments s)\<rparr>"

text \<open>
  \<^verbatim>\<open>POST /demo-checkout\<close>: the reply, the session and the state after the request. The order
  was validated when it was created and the paths set here hold valid values, so its
  \<^verbatim>\<open>save\<close> succeeds.
\<close>

definition demo_checkout ::
  "runtime \<Rightarrow> string \<Rightarrow> oid \<Rightarrow> session \<Rightarrow> state \<Rightarrow> (error + response) \<times> session \<times> state" where
  "demo_checkout rt now orderId sess s =
     (case sess_user sess of
        None \<Rightarrow> (Inl Unauthorized, sess, s)
      | Some uid \<Rightarrow>
          (case orders s orderId of
             None \<Rightarrow> (Inl OrderNotFound, sess, s)
           | Some ord \<Rightarrow>
               if ord_userId ord \<noteq> uid then (Inl Forbidden, sess, s)
               else
                 let s1 = s\<lparr>listings := bulkWrite (rnd rt) (listings s) (stockUpdates ord)\<rparr>;
                     ord' = ord\<lparr>ord_status := Paid,
                                ord_razorpayPaymentId := Some (''demo_payment_'' @ now),
                                ord_paidAt := Some now\<rparr>;
                     s2 = s1\<lparr>orders := (orders s1)(orderId \<mapsto> ord')\<rparr>;
                     s3 = processVendorPayouts (rnd rt) orderId ord' s2
                 in (Inr (DemoPaymentSuccessful orderId), sess\<lparr>sess_cart := []\<rparr>, s3)))"

text \<open>
  The signature check of both verification routes: the HMAC of \<^verbatim>\<open>order_id|payment_id\<close>.
  \<^verbatim>\<open>createHmac\<close> throws when the secret is not set.
\<close>

definition expectedSignature :: "runtime \<Rightarrow> string \<Rightarrow> string \<Rightarrow> string option" where
  "expectedSignature rt razorpay_order_id razorpay_payment_id =
     map_option (\<lambda>key. hmac_sha256_hex rt key (razorpay_order_id @ ''|'' @ razorpay_payment_id))
       (RAZORPAY_KEY_SECRET rt)"

text \<open>The body of \<^verbatim>\<open>POST /verify-payment\<close> and of \<^verbatim>\<open>POST /payments/verify\<close>.\<close>

record verifyBody =
  razorpay_order_id :: string
  razorpay_payment_id :: string
  razorpay_signature :: string

text \<open>
  \<^verbatim>\<open>POST /verify-payment\<close> of the orders route. Each \<^verbatim>\<open>await\<close> commits its write before the
  next statement runs, so what was written before a failing \<^verbatim>\<open>save\<close> stays written when the
  \<^verbatim>\<open>catch\<close> block answers.
\<close>

definition verify_payment ::
  "runtime \<Rightarrow> string \<Rightarrow> verifyBody \<Rightarrow> oid \<Rightarrow> session \<Rightarrow> state
     \<Rightarrow> (error + response) \<times> session \<times> state" where
  "verify_payment rt now body orderId sess s =
     (case sess_user sess of
        None \<Rightarrow> (Inl Unauthorized, sess, s)
      | Some uid \<Rightarrow>
          (case expectedSignature rt (razorpay_order_id body) (razorpay_payment_id body) of
             None \<Rightarrow> (Inl (InternalError ''Payment verification failed''), sess, s)
           | Some expected \<Rightarrow>
               if expected \<noteq> razorpay_signature body then (Inl InvalidSignature, sess, s)
               else
                 (case orders s orderId of
                    None \<Rightarrow> (Inl OrderNotFound, sess, s)
                  | Some ord \<Rightarrow>
                      let s1 = s\<lparr>listings := bulkWrite (rnd rt) (listings s) (stockUpdates ord)\<rparr>;
                          ord' = ord\<lparr>ord_status := Paid,
                                     ord_razorpayPaymentId := Some (razorpay_payment_id body),
                                     ord_paidAt := Some now\<rparr>;
                          s2 = s1\<lparr>orders := (orders s1)(orderId \<mapsto> ord')\<rparr>;
                          payment = \<lparr>pay_orderId = orderId,
                                     pay_userId = Some (ord_userId ord'),
                                     pay_razorpayOrderId = Some (razorpay_order_id body),
                                     pay_razorpayPaymentId = Some (razorpay_payment_id body),
                                     pay_razorpaySignature = None,
                                     pay_amount = ord_totalAmount ord',
                                     pay_status = ''completed'',
                                     pay_vendorPayouts = []\<rparr>
                      in if \<not> validate_payment payment
                         then (Inl (InternalError ''Payment verification failed''), sess, s2)
                         else
                           let s3 = s2\<lparr>payments := payments s2 @ [payment]\<rparr>;
                               s4 = processVendorPayouts (rnd rt) orderId ord' s3
                           in (Inr (PaymentVerifiedOrder orderId ord'),
                               sess\<lparr>sess_cart := []\<rparr>, s4))))"

section \<open>Payment verification in the payments route\<close>

text \<open>
  \<^verbatim>\<open>POST /payments/verify\<close>, first loop: the running total of each vendor, the vendors in the
  order of their first line. The lines are populated with their vendors before the loop.
\<close>

fun add_to_group :: "(real \<Rightarrow> real) \<Rightarrow> orderItem \<Rightarrow> (oid \<times> real) list \<Rightarrow> (oid \<times> real) list" where
  "add_to_group r it [] = [(item_vendorId it, r (0 + r (item_price it * of_int (item_qty it))))]"
| "add_to_group r it ((v, totalAmount) # gs) =
     (if v = item_vendorId it
      then (v, r (totalAmount + r (item_price it * of_int (item_qty it)))) # gs
      else (v, totalAmount) # add_to_group r it gs)"

definition vendorTotals :: "(real \<Rightarrow> real) \<Rightarrow> orderItem list \<Rightarrow> (oid \<times> real) list" where
  "vendorTotals r items = foldl (\<lambda>gs it. add_to_group r it gs) [] items"

text \<open>Second loop: the payout entry of a vendor, with \<^verbatim>\<open>commissionRate = 1.0\<close>.\<close>

definition payout_entry :: "(real \<Rightarrow> real) \<Rightarrow> oid \<times> real \<Rightarrow> vendorPayout" where
  "payout_entry r g =
     (let commission = r (r (snd g * 1) / 100);
          netAmount = r (snd g - commission)
      in \<lparr>po_vendorId = fst g,
          po_amount = snd g,
          po_commission = commission,
          po_netAmount = netAmount,
          po_status = ''pending''\<rparr>)"

definition vendorPayouts :: "(real \<Rightarrow> real) \<Rightarrow> orderItem list \<Rightarrow> vendorPayout list" where
  "vendorPayouts r items = map (payout_entry r) (vendorTotals r items)"

text \<open>\<^verbatim>\<open>findOne\<close> returns the first match; \<^verbatim>\<open>save\<close> writes that document back in its place.\<close>

fun replace_first :: "('a \<Rightarrow> bool) \<Rightarrow> 'a \<Rightarrow> 'a list \<Rightarrow> 'a list" where
  "replace_first P y [] = []"
| "replace_first P y (x # xs) = (if P x then y # xs else x # replace_first P y xs)"

definition payments_verify ::
  "runtime \<Rightarrow> verifyBody \<Rightarrow> session \<Rightarrow> state \<Rightarrow> (error + response) \<times> session \<times> state" where
  "payments_verify rt body sess s =
     (case sess_user sess of
        None \<Rightarrow> (Inl Unauthorized, sess, s)
      | Some uid \<Rightarrow>
          (case expectedSignature rt (razorpay_order_id body) (razorpay_payment_id body) of
             None \<Rightarrow> (Inl (InternalError ''Payment verification failed''), sess, s)
           | Some expected \<Rightarrow>
               if expected \<noteq> razorpay_signature body then (Inl InvalidSignature, sess, s)
               else
                 (case find (\<lambda>p. pay_razorpayOrderId p = Some (razorpay_order_id body)) (payments s) of
                    None \<Rightarrow> (Inl PaymentRecordNotFound, sess, s)
                  | Some payment \<Rightarrow>
                      (case orders s (pay_orderId payment) of
                         None \<Rightarrow> (Inl (InternalError ''Payment verification failed''), sess, s)
                       | Some ord \<Rightarrow>
                           if \<not> list_all (\<lambda>it. vendors s (item_vendorId it) \<noteq> None) (ord_items ord)
                           then (Inl (InternalError ''Payment verification failed''), sess, s)
                           else
                             let payment' =
                                   payment\<lparr>pay_razorpayPaymentId := Some (razorpay_payment_id body),
                                           pay_razorpaySignature := Some (razorpay_signature body),
                                           pay_status := ''paid'',
                                           pay_vendorPayouts := vendorPayouts (rnd rt) (ord_items ord)\<rparr>
                             in if \<not> validate_payment payment'
                                then (Inl (InternalError ''Payment verification failed''), sess, s)
                                else
                                  let s1 = s\<lparr>payments :=
                                             replace_first
                                               (\<lambda>p. pay_razorpayOrderId p = Some (razorpay_order_id body))
                                               payment' (payments s)\<rparr>;
                                      s2 = s1\<lparr>orders :=
                                             (orders s1)(pay_orderId payment \<mapsto> ord\<lparr>ord_status := Paid\<rparr>)\<rparr>
                                  in (Inr (PaymentVerified (pay_orderId payment)), sess, s2)))))"

section \<open>Response cache\<close>

text \<open>The invalidation helpers of \<^verbatim>\<open>middleware/cache.js\<close>.\<close>

definition invalidateCache_products :: "state \<Rightarrow> state" where
  "invalidateCache_products s = s\<lparr>cache_medium := Map.empty\<rparr>"

definition invalidateCache_user :: "string \<Rightarrow> state \<Rightarrow> state" where
  "invalidateCache_user userId s =
     (let patterns = [''user_profile_'' @ userId, ''vendor_profile_'' @ userId,
                      ''vendor_products_'' @ userId]
      in s\<lparr>cache_session := (\<lambda>k. if k \<in> set patterns then None else cache_session s k),
           cache_short := (\<lambda>k. if k \<in> set patterns then None else cache_short s k)\<rparr>)"

definition startsWith :: "string \<Rightarrow> string \<Rightarrow> bool" where
  "startsWith key p \<longleftrightarrow> take (length p) key = p"

definition invalidateCache_reviews :: "string \<Rightarrow> state \<Rightarrow> state" where
  "invalidateCache_reviews productId s =
     s\<lparr>cache_short := (\<lambda>k. if startsWith k (''reviews_'' @ productId) then None else cache_short s k)\<rparr>"

definition invalidateCache_all :: "state \<Rightarrow> state" where
  "invalidateCache_all s =
     s\<lparr>cache_short := Map.empty, cache_medium := Map.empty,
       cache_long := Map.empty, cache_session := Map.empty\<rparr>"

section \<open>Create review\<close>

text \<open>
  The body of \<^verbatim>\<open>POST /reviews\<close> after the validation chain: \<^verbatim>\<open>isMongoId\<close> accepts the 24
  hexadecimal digits of an ObjectId, \<^verbatim>\<open>isInt\<close> an integer rating from 1 to 5, and the
  comment, when given, is trimmed. Ids are compared as their hexadecimal text.
\<close>

record reviewBody =
  rb_orderId :: string
  rb_productId :: string
  rb_vendorId :: string
  rb_rating :: int
  rb_comment :: "string option"

definition isMongoId :: "string \<Rightarrow> bool" where
  "isMongoId str \<longleftrightarrow> length str = 24 \<and> list_all (\<lambda>c. c \<in> set ''0123456789abcdefABCDEF'') str"

definition isSpace :: "char \<Rightarrow> bool" where
  "isSpace c \<longleftrightarrow> c \<in> set [CHR '' '', CHR 0x09, CHR 0x0A, CHR 0x0B, CHR 0x0C, CHR 0x0D]"

definition trim :: "string \<Rightarrow> string" where
  "trim str = rev (dropWhile isSpace (rev (dropWhile isSpace str)))"

text \<open>
  \<^verbatim>\<open>review.save()\<close>: the schema bounds the comment by 500 characters, and the unique index on
  \<^verbatim>\<open>(userId, orderId, productId)\<close> refuses a second document with the same three values.
  Either failure throws into the route's \<^verbatim>\<open>catch\<close> block.
\<close>

definition duplicate_key :: "review \<Rightarrow> review list \<Rightarrow> bool" where
  "duplicate_key rv rvs \<longleftrightarrow>
     list_ex (\<lambda>x. rev_userId x = rev_userId rv \<and> rev_orderId x = rev_orderId rv \<and>
                 rev_productId x = rev_productId rv) rvs"

definition create_review :: "reviewBody \<Rightarrow> session \<Rightarrow> state \<Rightarrow> (error + response) \<times> state" where
  "create_review body sess s =
     (case sess_user sess of
        None \<Rightarrow> (Inl Unauthorized, s)
      | Some uid \<Rightarrow>
          if \<not> (isMongoId (rb_orderId body) \<and> isMongoId (rb_productId body) \<and>
                 isMongoId (rb_vendorId body) \<and> 1 \<le> rb_rating body \<and> rb_rating body \<le> 5)
          then (Inl ValidationFailed, s)
          else
            (case orders s (rb_orderId body) of
               None \<Rightarrow> (Inl OrderNotPaid, s)
             | Some ord \<Rightarrow>
                 if ord_userId ord \<noteq> uid \<or> ord_status ord \<noteq> Paid then (Inl OrderNotPaid, s)
                 else
                   (case find (\<lambda>it. item_productId it = rb_productId body \<and>
                                     item_vendorId it = rb_vendorId body) (ord_items ord) of
                      None \<Rightarrow> (Inl ProductNotInOrder, s)
                    | Some orderItem \<Rightarrow>
                        if list_ex (\<lambda>x. rev_userId x = uid \<and> rev_orderId x = rb_orderId body \<and>
                                        rev_productId x = rb_productId body \<and>
                                        rev_vendorId x = rb_vendorId body) (reviews s)
                        then (Inl ReviewExists, s)
                        else
                          let rv = \<lparr>rev_userId = uid,
                                    rev_orderId = rb_orderId body,
                                    rev_vendorId = rb_vendorId body,
                                    rev_productId = rb_productId body,
                                    rev_vendorProductId = item_vendorProductId orderItem,
                                    rev_rating = rb_rating body,
                                    rev_comment =
                                      (case rb_comment body of None \<Rightarrow> [] | Some c \<Rightarrow> trim c)\<rparr>
                          in if 500 < length (rev_comment rv) \<or> duplicate_key rv (reviews s)
                             then (Inl (InternalError ''Failed to create review''), s)
                             else (Inr (ReviewCreated rv),
                                   invalidateCache_reviews (rb_productId body)
                                     (s\<lparr>reviews := reviews s @ [rv]\<rparr>)))))"

section \<open>Removal of a vendor\<close>

text \<open>
  \<^verbatim>\<open>DELETE /vendors/:id\<close> of the admin route, for a caller who passed \<^verbatim>\<open>ensureAdmin\<close> (users
  are no part of the state). The listings of the vendor go only when the query asks for it
  with \<^verbatim>\<open>deleteProducts=true\<close>; by default they stay, each with the id of a vendor that is
  gone.
\<close>

definition delete_vendor :: "oid \<Rightarrow> bool \<Rightarrow> state \<Rightarrow> (error + response) \<times> state" where
  "delete_vendor vendorId deleteProducts s =
     (case vendors s vendorId of
        None \<Rightarrow> (Inl VendorNotFound, s)
      | Some vendor \<Rightarrow>
          let s1 = (if deleteProducts
                    then s\<lparr>listings :=
                           (\<lambda>i. case listings s i of
                                  None \<Rightarrow> None
                                | Some vp \<Rightarrow> if vp_vendorId vp = vendorId then None else Some vp)\<rparr>
                    else s)
          in (Inr VendorDeleted, s1\<lparr>vendors := (vendors s1)(vendorId := None)\<rparr>))"

section \<open>What can happen to a state\<close>

text \<open>
  The states that follow a state: any number of requests to the routes above, by anyone
  and with any body, and of changes to the listings (a vendor sets a price or a stock
  count, adds or deletes a listing; the admin removes a vendor).
\<close>

inductive later :: "runtime \<Rightarrow> state \<Rightarrow> state \<Rightarrow> bool" for rt :: runtime and s :: state where
  here: "later rt s s"
| catalog: "later rt s t \<Longrightarrow> later rt s (t\<lparr>listings := ls\<rparr>)"
| ordered: "later rt s t \<Longrightarrow> later rt s (snd (create_order rt gateway fresh time sess t))"
| demo_paid: "later rt s t \<Longrightarrow> later rt s (snd (snd (demo_checkout rt time orderId sess t)))"
| verified: "later rt s t \<Longrightarrow> later rt s (snd (snd (verify_payment rt time body orderId sess t)))"
| payment_verified: "later rt s t \<Longrightarrow> later rt s (snd (snd (payments_verify rt body sess t)))"
| reviewed: "later rt s t \<Longrightarrow> later rt s (snd (create_review rbody sess t))"
| vendor_deleted: "later rt s t \<Longrightarrow> later rt s (snd (delete_vendor vendorId deleteProducts t))"

section \<open>A shop to run the routes on\<close>

text \<open>
  Two vendors list the same catalog product: listing A at 100 with 5 in stock, listing B at
  2 with 4 in stock. The product list is cached. The customer's cart holds two of A and one
  of B.
\<close>

definition customer :: oid where "customer = ''aaaaaaaaaaaaaaaaaaaaaaa1''"
definition stranger :: oid where "stranger = ''aaaaaaaaaaaaaaaaaaaaaaa2''"
definition vendor1 :: oid where "vendor1 = ''bbbbbbbbbbbbbbbbbbbbbbb1''"
definition vendor2 :: oid where "vendor2 = ''bbbbbbbbbbbbbbbbbbbbbbb2''"
definition product1 :: oid where "product1 = ''ccccccccccccccccccccccc1''"
definition listingA :: oid where "listingA = ''ddddddddddddddddddddddd1''"
definition listingB :: oid where "listingB = ''ddddddddddddddddddddddd2''"
definition order1 :: oid where "order1 = ''eeeeeeeeeeeeeeeeeeeeeee1''"

definition shop :: state where
  "shop =
     \<lparr>listings =
        [listingA \<mapsto> \<lparr>vp_vendorId = vendor1, vp_productId = product1, vp_price = 100, vp_stock = 5\<rparr>,
         listingB \<mapsto> \<lparr>vp_vendorId = vendor2, vp_productId = product1, vp_price = 2, vp_stock = 4\<rparr>],
      products = [product1 \<mapsto> ''Lamp''],
      vendors = [vendor1 \<mapsto> ''North Store'', vendor2 \<mapsto> ''South Store''],
      orders = Map.empty,
      payments = [],
      reviews = [],
      cache_short = Map.empty,
      cache_medium = [''products_1_10_all_none'' \<mapsto> ''cached product list''],
      cache_long = Map.empty,
      cache_session = Map.empty\<rparr>"

definition cart1 :: "cartItem list" where
  "cart1 =
     [\<lparr>ci_vendorProductId = listingA, ci_qty = 2, ci_productName = ''Lamp''\<rparr>,
      \<lparr>ci_vendorProductId = listingB, ci_qty = 1, ci_productName = ''Lamp''\<rparr>]"

definition customer_session :: session where
  "customer_session = \<lparr>sess_user = Some customer, sess_cart = cart1\<rparr>"

text \<open>A cart that asks for nine of listing A.\<close>

definition greedy_item :: cartItem where
  "greedy_item = \<lparr>ci_vendorProductId = listingA, ci_qty = 9, ci_productName = ''Lamp''\<rparr>"

definition greedy_session :: session where
  "greedy_session = \<lparr>sess_user = Some customer, sess_cart = [greedy_item]\<rparr>"

definition stranger_session :: session where
  "stranger_session =
     \<lparr>sess_user = Some stranger,
      sess_cart = [\<lparr>ci_vendorProductId = listingB, ci_qty = 1, ci_productName = ''Lamp''\<rparr>]\<rparr>"



text \<open>A listing whose stock count is the second double after \<open>2 ^ 53\<close>, and an order of one.\<close>

definition warehouse :: "oid \<rightharpoonup> vendorProduct" where
  "warehouse =
     [listingA \<mapsto> \<lparr>vp_vendorId = vendor1, vp_productId = product1, vp_price = 100,
                    vp_stock = 9007199254740994\<rparr>]"

definition single_order :: order where
  "single_order =
     \<lparr>ord_userId = customer,
      ord_items = [\<lparr>item_vendorProductId = listingA, item_productId = product1,
                    item_vendorId = vendor1, item_price = 100, item_qty = 1\<rparr>],
      ord_totalAmount = 100, ord_status = Pending, ord_paymentType = ''demo'',
      ord_razorpayOrderId = ''demo_1700000000000'', ord_razorpayPaymentId = None,
      ord_paidAt = None\<rparr>"

text \<open>
  The theorems hold for every digest function, and for every rounding where they name
  none. The examples run in double arithmetic, with this keyed function in the place of
  HMAC-SHA256.
\<close>

definition keyed_digest :: "string \<Rightarrow> string \<Rightarrow> string" where
  "keyed_digest key msg = rev msg @ key"

definition js :: runtime where
  "js = \<lparr>rnd = to_double, hmac_sha256_hex = keyed_digest, RAZORPAY_KEY_SECRET = Some ''s3cret''\<rparr>"

text \<open>The order that \<^verbatim>\<open>create-order\<close> stores for the cart, in demo mode, and the shop with it.\<close>

definition lines1 :: "orderItem list" where
  "lines1 =
     [\<lparr>item_vendorProductId = listingA, item_productId = product1, item_vendorId = vendor1,
       item_price = 100, item_qty = 2\<rparr>,
      \<lparr>item_vendorProductId = listingB, item_productId = product1, item_vendorId = vendor2,
       item_price = 2, item_qty = 1\<rparr>]"

definition pending1 :: order where
  "pending1 =
     \<lparr>ord_userId = customer, ord_items = lines1, ord_totalAmount = 202, ord_status = Pending,
      ord_paymentType = ''demo'', ord_razorpayOrderId = ''demo_1700000000000'',
      ord_razorpayPaymentId = None, ord_paidAt = None\<rparr>"

definition shop_ordered :: state where
  "shop_ordered = shop\<lparr>orders := [order1 \<mapsto> pending1]\<rparr>"

text \<open>The same shop after vendor 1 has raised the price of listing A.\<close>

definition shop_repriced :: state where
  "shop_repriced =
     shop_ordered\<lparr>listings :=
       [listingA \<mapsto> \<lparr>vp_vendorId = vendor1, vp_productId = product1, vp_price = 999, vp_stock = 5\<rparr>,
        listingB \<mapsto> \<lparr>vp_vendorId = vendor2, vp_productId = product1, vp_price = 2, vp_stock = 4\<rparr>]\<rparr>"

definition paid1 :: order where
  "paid1 =
     pending1\<lparr>ord_status := Paid, ord_razorpayPaymentId := Some ''demo_payment_1700000000001'',
              ord_paidAt := Some ''1700000000001''\<rparr>"

definition shop_paid :: state where
  "shop_paid =
     shop\<lparr>listings :=
            [listingA \<mapsto> \<lparr>vp_vendorId = vendor1, vp_productId = product1, vp_price = 100, vp_stock = 3\<rparr>,
             listingB \<mapsto> \<lparr>vp_vendorId = vendor2, vp_productId = product1, vp_price = 2, vp_stock = 3\<rparr>],
          orders := [order1 \<mapsto> paid1]\<rparr>"


text \<open>The reviews of the customer for the product of the paid order, one per vendor.\<close>

definition review_of :: "oid \<Rightarrow> reviewBody" where
  "review_of vendorId =
     \<lparr>rb_orderId = order1, rb_productId = product1, rb_vendorId = vendorId, rb_rating = 4,
      rb_comment = Some '' bright ''\<rparr>"

definition first_review :: review where
  "first_review =
     \<lparr>rev_userId = customer, rev_orderId = order1, rev_vendorId = vendor1,
      rev_productId = product1, rev_vendorProductId = listingA, rev_rating = 4,
      rev_comment = ''bright''\<rparr>"

definition shop_reviewed :: state where
  "shop_reviewed = shop_paid\<lparr>reviews := [first_review]\<rparr>"

definition valid_body :: verifyBody where
  "valid_body =
     \<lparr>razorpay_order_id = ''order_9'', razorpay_payment_id = ''pay_7'',
      razorpay_signature = keyed_digest ''s3cret'' ''order_9|pay_7''\<rparr>"

definition forged_body :: verifyBody where
  "forged_body =
     \<lparr>razorpay_order_id = ''order_9'', razorpay_payment_id = ''pay_7'',
      razorpay_signature = ''0000''\<rparr>"

section \<open>Evaluating double arithmetic\<close>

lemma binade_numeral:
  "binade (numeral k) x e =
     (if 9007199254740992 \<le> x then binade (pred_numeral k) (x / 2) (e + 1)
      else if x < 4503599627370496 then binade (pred_numeral k) (x * 2) (e - 1)
      else e)"
  by (simp add: numeral_eq_Suc)

lemmas to_double_eval = to_double_def binade_numeral round_half_even_def scale2_def Let_def

lemma to_double_1: "to_double 1 = 1"
  by (simp add: to_double_eval)

lemma to_double_2: "to_double 2 = 2"
  by (simp add: to_double_eval)


lemma to_double_200: "to_double 200 = 200"
  by (simp add: to_double_eval)

lemma to_double_202: "to_double 202 = 202"
  by (simp add: to_double_eval)

text \<open>The literal \<^verbatim>\<open>0.01\<close> is not one hundredth.\<close>

lemma to_double_cent: "to_double (1 / 100) = 5764607523034235 / 576460752303423488"
  by (simp add: to_double_eval)


section \<open>Integers and the error of a rounding\<close>

text \<open>
  Every integer up to \<open>2 ^ 53\<close> in magnitude is a double, so an operation whose exact
  result is such an integer is not rounded.
\<close>

lemma round_half_even_int: "round_half_even (of_int m) = m"
  by (simp add: round_half_even_def)

lemma binade_small:
  assumes "x < 9007199254740992" and "2 ^ (52 - j) \<le> x" and "j \<le> 52"
  shows "\<exists>k \<le> j. binade n x e = e - int k"
  using assms
proof (induction n arbitrary: x e j)
  case 0
  then show ?case by auto
next
  case (Suc n)
  show ?case
  proof (cases "x < 4503599627370496")
    case True
    have j: "0 < j"
    proof (rule ccontr)
      assume "\<not> 0 < j"
      then have "j = 0" by simp
      with Suc.prems(2) True show False by simp
    qed
    have a: "2 ^ (52 - (j - 1)) \<le> x * 2"
    proof -
      have "52 - (j - 1) = Suc (52 - j)" using j Suc.prems(3) by simp
      then show ?thesis using Suc.prems(2) by simp
    qed
    have b: "x * 2 < 9007199254740992" using True by simp
    have c: "j - 1 \<le> 52" using Suc.prems(3) by simp
    from Suc.IH[OF b a c, of "e - 1"]
    obtain k where k: "k \<le> j - 1" "binade n (x * 2) (e - 1) = e - 1 - int k"
      by blast
    have "binade (Suc n) x e = e - int (Suc k)"
      using True Suc.prems(1) k by simp
    moreover have "Suc k \<le> j" using k j by simp
    ultimately show ?thesis by blast
  next
    case False
    then have "binade (Suc n) x e = e - int 0" using Suc.prems(1) by simp
    then show ?thesis by blast
  qed
qed

lemma to_double_pos_int:
  assumes "0 < n" and "n < 9007199254740992"
  shows "to_double (of_int n) = of_int n"
proof -
  have x: "\<bar>real_of_int n\<bar> = of_int n" using assms by simp
  have "(2::real) ^ (52 - 52) \<le> of_int n" using assms by simp
  moreover have "real_of_int n < 9007199254740992" using assms by simp
  ultimately obtain k where k: "k \<le> 52" "binade 2200 (of_int n) 0 = 0 - int k"
    using binade_small[of "of_int n" 52 2200 0] by auto
  have e: "max (binade 2200 (real_of_int n) 0) (- 1074) = - int k"
    using k by simp
  have s: "scale2 (- int k) = 1 / 2 ^ k"
    by (cases "k = 0") (simp_all add: scale2_def)
  have "real_of_int n / scale2 (- int k) = of_int (n * 2 ^ k)"
    by (simp add: s)
  then have m: "round_half_even (real_of_int n / scale2 (- int k)) = n * 2 ^ k"
    by (simp only: round_half_even_int)
  have "to_double (of_int n) = sgn (real_of_int n) * of_int (n * 2 ^ k) * scale2 (- int k)"
    using assms(1) unfolding to_double_def Let_def x e m by simp
  also have "\<dots> = of_int n" using assms(1) by (simp add: s)
  finally show ?thesis .
qed

lemma to_double_minus: "to_double (- x) = - to_double x"
  by (simp add: to_double_def Let_def)

lemma to_double_2_53: "to_double 9007199254740992 = 9007199254740992"
  by (simp add: to_double_eval)

lemma to_double_int:
  assumes "\<bar>n\<bar> \<le> 9007199254740992"
  shows "to_double (of_int n) = of_int n"
proof -
  consider "n = 0" | "0 < n" "n < 9007199254740992" | "n = 9007199254740992"
    | "n < 0" "- n < 9007199254740992" | "n = - 9007199254740992"
    using assms by linarith
  then show ?thesis
  proof cases
    case 1
    then show ?thesis by (simp add: to_double_def)
  next
    case 2
    then show ?thesis by (rule to_double_pos_int)
  next
    case 3
    then show ?thesis using to_double_2_53 by simp
  next
    case 4
    then have "to_double (of_int (- n)) = of_int (- n)" by (intro to_double_pos_int) simp_all
    then show ?thesis using to_double_minus[of "of_int n"] by simp
  next
    case 5
    then show ?thesis using to_double_2_53 to_double_minus[of 9007199254740992] by simp
  qed
qed

text \<open>The next integer is not a double: \<open>2 ^ 53 + 2 - 1\<close> is rounded to \<open>2 ^ 53\<close>.\<close>

lemma to_double_beyond: "to_double (9007199254740994 - 1) = 9007199254740992"
  by (simp add: to_double_eval)

lemma to_double_numeral:
  "numeral k \<le> (9007199254740992::int) \<Longrightarrow> to_double (numeral k) = numeral k"
  using to_double_int[of "numeral k"] by simp








lemmas ids = customer_def stranger_def vendor1_def vendor2_def product1_def listingA_def
  listingB_def order1_def

lemmas shop_defs = shop_def shop_ordered_def shop_paid_def shop_reviewed_def shop_repriced_def
  pending1_def paid1_def lines1_def cart1_def customer_session_def stranger_session_def
  greedy_session_def greedy_item_def js_def first_review_def review_of_def valid_body_def
  forged_body_def keyed_digest_def

section \<open>Create order: validation\<close>





lemma order_lines_total:
  assumes "order_lines r s cart (t, its) = Inr (t', its')"
  shows "\<exists>new. its' = its @ new \<and>
           t' = foldl (\<lambda>sum it. r (sum + r (item_price it * of_int (item_qty it)))) t new \<and>
           map item_vendorProductId new = map ci_vendorProductId cart \<and>
           map item_qty new = map ci_qty cart \<and>
           (\<forall>it \<in> set new. \<exists>vp. listings s (item_vendorProductId it) = Some vp \<and>
               item_price it = vp_price vp \<and> item_productId it = vp_productId vp \<and>
               item_vendorId it = vp_vendorId vp \<and> of_int (item_qty it) \<le> vp_stock vp)"
  using assms
proof (induction cart arbitrary: t its)
  case Nil
  then show ?case by simp
next
  case (Cons c cart)
  from Cons.prems obtain vp where vp: "listings s (ci_vendorProductId c) = Some vp"
    by (auto split: option.splits)
  let ?it = "\<lparr>item_vendorProductId = ci_vendorProductId c, item_productId = vp_productId vp,
              item_vendorId = vp_vendorId vp, item_price = vp_price vp, item_qty = ci_qty c\<rparr>"
  from Cons.prems vp have st: "\<not> vp_stock vp < of_int (ci_qty c)"
    and rest: "order_lines r s cart (r (t + r (vp_price vp * of_int (ci_qty c))), its @ [?it]) =
                 Inr (t', its')"
    by (auto split: if_splits)
  from Cons.IH[OF rest] obtain new where
    n: "its' = (its @ [?it]) @ new"
       "t' = foldl (\<lambda>sum it. r (sum + r (item_price it * of_int (item_qty it))))
               (r (t + r (vp_price vp * of_int (ci_qty c)))) new"
       "map item_vendorProductId new = map ci_vendorProductId cart"
       "map item_qty new = map ci_qty cart"
       "\<forall>it \<in> set new. \<exists>vp. listings s (item_vendorProductId it) = Some vp \<and>
               item_price it = vp_price vp \<and> item_productId it = vp_productId vp \<and>
               item_vendorId it = vp_vendorId vp \<and> of_int (item_qty it) \<le> vp_stock vp"
    by blast
  show ?case
    apply (rule exI[of _ "?it # new"])
    using n vp st by simp
qed

lemma create_order_example:
  "create_order js None order1 ''1700000000000'' customer_session shop =
     (Inr (OrderCreated order1 202 True), shop_ordered)"
  by (simp add: create_order_def validate_order_def to_double_2 to_double_200 to_double_202
      shop_defs ids)

section \<open>What the confirmation routes do\<close>

lemma bulkWrite_absent: "ls L = None \<Longrightarrow> bulkWrite r ls ups L = None"
proof (induction r ls ups rule: bulkWrite.induct)
  case (1 r ls)
  then show ?case by simp
next
  case (2 r ls i d ups)
  have "(case ls i of None \<Rightarrow> ls | Some vp \<Rightarrow> ls(i \<mapsto> vp\<lparr>vp_stock := r (vp_stock vp + d)\<rparr>)) L = None"
    using "2.prems" by (auto split: option.splits)
  from "2.IH"[OF this] show ?case by simp
qed

text \<open>
  The stock of a listing after the batch: the increments of its own lines, added one after
  the other, each sum rounded.
\<close>

lemma bulkWrite_stock:
  "ls L = Some vp \<Longrightarrow>
   bulkWrite r ls ups L =
     Some (vp\<lparr>vp_stock := foldl (\<lambda>stock d. r (stock + d)) (vp_stock vp)
                                (map snd (filter (\<lambda>u. fst u = L) ups))\<rparr>)"
proof (induction r ls ups arbitrary: vp rule: bulkWrite.induct)
  case (1 r ls)
  then show ?case by simp
next
  case (2 r ls i d ups)
  let ?ls = "case ls i of None \<Rightarrow> ls | Some vp \<Rightarrow> ls(i \<mapsto> vp\<lparr>vp_stock := r (vp_stock vp + d)\<rparr>)"
  have step: "bulkWrite r ls ((i, d) # ups) L = bulkWrite r ?ls ups L" by simp
  show ?case
  proof (cases "i = L")
    case True
    have "?ls L = Some (vp\<lparr>vp_stock := r (vp_stock vp + d)\<rparr>)"
      using True "2.prems" by simp
    from "2.IH"[OF this] have
      "bulkWrite r ?ls ups L =
         Some (vp\<lparr>vp_stock := foldl (\<lambda>stock d. r (stock + d)) (r (vp_stock vp + d))
                                    (map snd (filter (\<lambda>u. fst u = L) ups))\<rparr>)"
      by simp
    then show ?thesis unfolding step using True by simp
  next
    case False
    have "?ls L = Some vp"
      using False "2.prems" by (simp split: option.splits)
    from "2.IH"[OF this] show ?thesis unfolding step using False by simp
  qed
qed

lemma stockUpdates_lines:
  "map snd (filter (\<lambda>u. fst u = L) (stockUpdates ord)) =
   map (\<lambda>q. - of_int q)
     (map item_qty (filter (\<lambda>it. item_vendorProductId it = L) (ord_items ord)))"
  unfolding stockUpdates_def
  by (induction "ord_items ord" arbitrary: ord) (auto simp: o_def filter_map)

text \<open>
  Taking quantities from an integer stock count one after the other is exact in double
  arithmetic as long as the count stays within \<open>2 ^ 53\<close> in magnitude.
\<close>

lemma decrements_exact:
  assumes "\<forall>q \<in> set qs. 0 \<le> q"
    and "n \<le> 9007199254740992"
    and "sum_list qs - n \<le> 9007199254740992"
  shows "foldl (\<lambda>stock d. to_double (stock + d)) (of_int n) (map (\<lambda>q. - of_int q) qs) =
         of_int (n - sum_list qs)"
  using assms
proof (induction qs arbitrary: n)
  case Nil
  then show ?case by simp
next
  case (Cons q qs)
  have q: "0 \<le> q" and rest: "\<forall>q \<in> set qs. 0 \<le> q" using Cons.prems(1) by simp_all
  have "0 \<le> sum_list qs" using rest by (simp add: sum_list_nonneg)
  then have "\<bar>n - q\<bar> \<le> 9007199254740992" using q Cons.prems(2,3) by simp
  then have "to_double (of_int (n - q)) = of_int (n - q)" by (rule to_double_int)
  then have step: "to_double (of_int n + - of_int q) = of_int (n - q)" by simp
  have "foldl (\<lambda>stock d. to_double (stock + d)) (of_int (n - q)) (map (\<lambda>q. - of_int q) qs) =
        of_int (n - q - sum_list qs)"
    using q rest Cons.prems(2,3) by (intro Cons.IH) simp_all
  then show ?case by (simp only: list.map foldl_Cons step sum_list.Cons diff_diff_eq)
qed

text \<open>
  The payout document of the orders route never passes the payment schema: it has no
  \<^verbatim>\<open>userId\<close>, no \<^verbatim>\<open>razorpayOrderId\<close>, and its status is not in the enum. So the first
  \<^verbatim>\<open>save\<close> of \<^verbatim>\<open>processVendorPayouts\<close> throws and the function stores nothing.
\<close>

lemma payout_document_invalid: "\<not> validate_payment (payout_document r orderId items)"
  by (simp add: validate_payment_def payout_document_def Let_def)

lemma save_payouts_nothing: "save_payouts r orderId gs ps = ps"
  by (cases gs) (auto simp: payout_document_invalid Let_def)

lemma processVendorPayouts_nothing: "processVendorPayouts r orderId ord s = s"
  by (simp add: processVendorPayouts_def save_payouts_nothing)

text \<open>Nor does the payment record of \<^verbatim>\<open>verify-payment\<close>: its status is \<^verbatim>\<open>completed\<close>.\<close>

lemma completed_payment_invalid: "pay_status p = ''completed'' \<Longrightarrow> \<not> validate_payment p"
  by (simp add: validate_payment_def)

lemma demo_checkout_cases:
  "demo_checkout rt now orderId sess s =
     (case sess_user sess of
        None \<Rightarrow> (Inl Unauthorized, sess, s)
      | Some uid \<Rightarrow>
          (case orders s orderId of
             None \<Rightarrow> (Inl OrderNotFound, sess, s)
           | Some ord \<Rightarrow>
               if ord_userId ord \<noteq> uid then (Inl Forbidden, sess, s)
               else (Inr (DemoPaymentSuccessful orderId), sess\<lparr>sess_cart := []\<rparr>,
                     s\<lparr>listings := bulkWrite (rnd rt) (listings s) (stockUpdates ord),
                       orders := (orders s)(orderId \<mapsto> ord\<lparr>ord_status := Paid,
                                ord_razorpayPaymentId := Some (''demo_payment_'' @ now),
                                ord_paidAt := Some now\<rparr>)\<rparr>)))"
  by (simp add: demo_checkout_def processVendorPayouts_nothing Let_def split: option.splits)

lemma verify_payment_cases:
  "verify_payment rt now body orderId sess s =
     (case sess_user sess of
        None \<Rightarrow> (Inl Unauthorized, sess, s)
      | Some uid \<Rightarrow>
          (case expectedSignature rt (razorpay_order_id body) (razorpay_payment_id body) of
             None \<Rightarrow> (Inl (InternalError ''Payment verification failed''), sess, s)
           | Some expected \<Rightarrow>
               if expected \<noteq> razorpay_signature body then (Inl InvalidSignature, sess, s)
               else
                 (case orders s orderId of
                    None \<Rightarrow> (Inl OrderNotFound, sess, s)
                  | Some ord \<Rightarrow>
                      (Inl (InternalError ''Payment verification failed''), sess,
                       s\<lparr>listings := bulkWrite (rnd rt) (listings s) (stockUpdates ord),
                         orders := (orders s)(orderId \<mapsto> ord\<lparr>ord_status := Paid,
                                     ord_razorpayPaymentId := Some (razorpay_payment_id body),
                                     ord_paidAt := Some now\<rparr>)\<rparr>))))"
  by (simp add: verify_payment_def completed_payment_invalid Let_def split: option.splits)

lemma demo_checkout_example:
  "demo_checkout js ''1700000000001'' order1 customer_session shop_ordered =
     (Inr (DemoPaymentSuccessful order1), customer_session\<lparr>sess_cart := []\<rparr>, shop_paid)"
  by (simp add: demo_checkout_cases stockUpdates_def shop_defs ids fun_eq_iff to_double_numeral)

lemma second_checkout_example:
  "listings (snd (snd (demo_checkout js ''1700000000002'' order1 customer_session shop_paid)))
     listingA =
     Some \<lparr>vp_vendorId = vendor1, vp_productId = product1, vp_price = 100, vp_stock = 1\<rparr>"
  by (simp add: demo_checkout_cases stockUpdates_def shop_defs ids to_double_1)

section \<open>The snapshot of an order\<close>

text \<open>
  No request and no change of the listings alters the lines, the total or the owner of a
  stored order.
\<close>

lemma later_keeps_snapshot:
  assumes "later rt s t" and "orders s oid = Some ord"
  shows "\<exists>ord'. orders t oid = Some ord' \<and> ord_items ord' = ord_items ord \<and>
           ord_totalAmount ord' = ord_totalAmount ord \<and> ord_userId ord' = ord_userId ord"
  using assms
proof (induction rule: later.induct)
  case here
  then show ?case by simp
next
  case (catalog t ls)
  then show ?case by simp
next
  case (ordered t gateway fresh time sess)
  then show ?case
    by (auto simp: create_order_def Let_def split: option.splits sum.splits if_splits)
next
  case (demo_paid t time orderId sess)
  then show ?case
    by (auto simp: demo_checkout_cases split: option.splits if_splits)
next
  case (verified t time body orderId sess)
  then show ?case
    by (auto simp: verify_payment_cases split: option.splits if_splits)
next
  case (payment_verified t body sess)
  then show ?case
    by (auto simp: payments_verify_def Let_def split: option.splits if_splits)
next
  case (reviewed t rbody sess)
  then show ?case
    by (auto simp: create_review_def Let_def invalidateCache_reviews_def
        split: option.splits if_splits)
next
  case (vendor_deleted t vendorId deleteProducts)
  then show ?case
    by (auto simp: delete_vendor_def Let_def split: option.splits)
qed

text \<open>
  Claim C4. The order that a successful \<^verbatim>\<open>create-order\<close> stores is pending, has one line per
  cart line with the price its listing had at that moment, and its total is the sum of
  price times quantity over those lines. The order holds these numbers itself: whatever
  the listings become afterwards its owner reads the same order back, and after any
  requests and any changes of the listings the stored order has the same lines, with the
  same prices, and the same total.
\<close>

theorem order_total_is_snapshot_sum:
  assumes "create_order rt gateway fresh now sess s = (Inr resp, s')"
  shows "\<exists>ord. orders s' fresh = Some ord \<and>
           resp = OrderCreated fresh (ord_totalAmount ord) (gateway = None) \<and>
           ord_status ord = Pending \<and>
           ord_totalAmount ord = line_total (rnd rt) (ord_items ord) \<and>
           map item_vendorProductId (ord_items ord) = map ci_vendorProductId (sess_cart sess) \<and>
           map item_qty (ord_items ord) = map ci_qty (sess_cart sess) \<and>
           (\<forall>it \<in> set (ord_items ord). \<exists>vp. listings s (item_vendorProductId it) = Some vp \<and>
               item_price it = vp_price vp) \<and>
           (\<forall>ls. get_order fresh sess (s'\<lparr>listings := ls\<rparr>) = Inr ord) \<and>
           (\<forall>t. later rt s' t \<longrightarrow>
              (\<exists>ord'. orders t fresh = Some ord' \<and> ord_items ord' = ord_items ord \<and>
                 ord_totalAmount ord' = ord_totalAmount ord \<and>
                 ord_totalAmount ord' = line_total (rnd rt) (ord_items ord')))"
proof -
  from assms obtain uid where uid: "sess_user sess = Some uid"
    by (auto simp: create_order_def split: option.splits)
  from assms uid obtain t its where
    ol: "order_lines (rnd rt) s (sess_cart sess) (0, []) = Inr (t, its)"
    by (auto simp: create_order_def Let_def split: if_splits sum.splits)
  let ?ord = "\<lparr>ord_userId = uid, ord_items = its, ord_totalAmount = t, ord_status = Pending,
               ord_paymentType = (if gateway = None then ''demo'' else ''razorpay''),
               ord_razorpayOrderId = (case gateway of None \<Rightarrow> ''demo_'' @ now | Some g \<Rightarrow> g),
               ord_razorpayPaymentId = None, ord_paidAt = None\<rparr>"
  from assms uid ol have s': "s' = s\<lparr>orders := (orders s)(fresh \<mapsto> ?ord)\<rparr>"
    and resp: "resp = OrderCreated fresh t (gateway = None)"
    by (auto simp: create_order_def Let_def split: if_splits)
  from order_lines_total[OF ol] obtain new where
    n: "its = new"
       "t = foldl (\<lambda>sum it. rnd rt (sum + rnd rt (item_price it * of_int (item_qty it)))) 0 new"
       "map item_vendorProductId new = map ci_vendorProductId (sess_cart sess)"
       "map item_qty new = map ci_qty (sess_cart sess)"
       "\<forall>it \<in> set new. \<exists>vp. listings s (item_vendorProductId it) = Some vp \<and>
               item_price it = vp_price vp \<and> item_productId it = vp_productId vp \<and>
               item_vendorId it = vp_vendorId vp \<and> of_int (item_qty it) \<le> vp_stock vp"
    by auto
  have stored: "orders s' fresh = Some ?ord" using s' by simp
  have total: "ord_totalAmount ?ord = line_total (rnd rt) (ord_items ?ord)"
    using n by (simp add: line_total_def)
  have kept: "\<exists>ord'. orders u fresh = Some ord' \<and> ord_items ord' = ord_items ?ord \<and>
                 ord_totalAmount ord' = ord_totalAmount ?ord \<and>
                 ord_totalAmount ord' = line_total (rnd rt) (ord_items ord')"
    if "later rt s' u" for u
    using later_keeps_snapshot[OF that stored] total by auto
  show ?thesis
    apply (rule exI[of _ ?ord])
    using n s' resp uid total kept by (auto simp: get_order_def)
qed

text \<open>
  The order of the cart is worth 202 in double arithmetic. It reads back at 100 a lamp
  after the listing went to 999, and is worth 202 after it was paid.
\<close>

theorem order_total_is_snapshot_sum_witness:
  "create_order js None order1 ''1700000000000'' customer_session shop =
     (Inr (OrderCreated order1 202 True), shop_ordered) \<and>
   orders shop_ordered order1 = Some pending1 \<and>
   ord_totalAmount pending1 = line_total (rnd js) (ord_items pending1) \<and>
   map item_price (ord_items pending1) = [100, 2] \<and>
   map_option vp_price (listings shop_repriced listingA) = Some 999 \<and>
   get_order order1 customer_session shop_repriced = Inr pending1 \<and>
   later js shop_ordered shop_paid \<and>
   map_option ord_totalAmount (orders shop_paid order1) = Some 202 \<and>
   map_option ord_items (orders shop_paid order1) = Some (ord_items pending1)"
proof -
  from order_total_is_snapshot_sum[OF create_order_example]
  obtain ord where o: "orders shop_ordered order1 = Some ord"
    "ord_totalAmount ord = line_total (rnd js) (ord_items ord)"
    "\<forall>ls. get_order order1 customer_session (shop_ordered\<lparr>listings := ls\<rparr>) = Inr ord"
    "\<forall>t. later js shop_ordered t \<longrightarrow>
       (\<exists>ord'. orders t order1 = Some ord' \<and> ord_items ord' = ord_items ord \<and>
          ord_totalAmount ord' = ord_totalAmount ord \<and>
          ord_totalAmount ord' = line_total (rnd js) (ord_items ord'))"
    by blast
  have p: "orders shop_ordered order1 = Some pending1" by (simp add: shop_defs)
  with o have eq: "ord = pending1" by simp
  have t: "ord_totalAmount pending1 = line_total (rnd js) (ord_items pending1)"
    using o(2) eq by simp
  have g: "get_order order1 customer_session shop_repriced = Inr pending1"
    using o(3) eq by (simp add: shop_repriced_def)
  have v: "map item_price (ord_items pending1) = [100, 2]"
    "map_option vp_price (listings shop_repriced listingA) = Some 999"
    by (simp_all add: shop_defs ids)
  have "later js shop_ordered
          (snd (snd (demo_checkout js ''1700000000001'' order1 customer_session shop_ordered)))"
    by (rule later.demo_paid) (rule later.here)
  then have l: "later js shop_ordered shop_paid" by (simp add: demo_checkout_example)
  with o(4) eq obtain ord' where "orders shop_paid order1 = Some ord'"
    "ord_items ord' = ord_items pending1" "ord_totalAmount ord' = ord_totalAmount pending1"
    by blast
  moreover have "ord_totalAmount pending1 = 202" by (simp add: shop_defs)
  ultimately have k: "map_option ord_totalAmount (orders shop_paid order1) = Some 202"
    "map_option ord_items (orders shop_paid order1) = Some (ord_items pending1)"
    by simp_all
  from create_order_example p t g v l k show ?thesis by blast
qed

section \<open>Stock, cache and payouts after a confirmation\<close>

text \<open>
  Claim C1, as the code has it. Let \<open>q\<close> be the quantity of listing \<open>L\<close> in the order (the sum
  over its lines for \<open>L\<close>, none of them negative) and let the stock of \<open>L\<close> be an integer
  \<open>n\<close>. The stock is a double and the decrement a sum of doubles, so the statement holds
  where that sum is exact: for \<open>n\<close> up to \<open>2 ^ 53\<close> and \<open>2 * q - n\<close> up to \<open>2 ^ 53\<close>, which
  is the case whenever \<open>q\<close> is at most \<open>n\<close> and \<open>n\<close> at most \<open>2 ^ 53\<close>. There one
  confirmation, by \<^verbatim>\<open>demo-checkout\<close> of the owner or by \<^verbatim>\<open>verify-payment\<close> with a valid
  signature, takes exactly \<open>q\<close> from the stock of \<open>L\<close> and changes nothing else of the
  listing. Neither route looks at the status of the order: a second confirmation takes
  \<open>q\<close> again, \<open>2 * q\<close> in all.
\<close>

theorem confirmation_decrements_stock_each_time:
  assumes "orders s orderId = Some ord"
    and "listings s L = Some vp"
    and "sess_user sess = Some uid"
    and "rnd rt = to_double"
    and "vp_stock vp = of_int n"
    and "\<forall>it \<in> set (ord_items ord). 0 \<le> item_qty it"
    and "n \<le> 9007199254740992"
    and "2 * sum_list (map item_qty
               (filter (\<lambda>it. item_vendorProductId it = L) (ord_items ord))) - n
         \<le> 9007199254740992"
  shows "let q = sum_list (map item_qty
                   (filter (\<lambda>it. item_vendorProductId it = L) (ord_items ord)))
         in (ord_userId ord = uid \<longrightarrow>
               listings (snd (snd (demo_checkout rt now orderId sess s))) L =
                 Some (vp\<lparr>vp_stock := vp_stock vp - of_int q\<rparr>) \<and>
               listings (snd (snd (demo_checkout rt now' orderId sess
                           (snd (snd (demo_checkout rt now orderId sess s)))))) L =
                 Some (vp\<lparr>vp_stock := vp_stock vp - 2 * of_int q\<rparr>)) \<and>
            (expectedSignature rt (razorpay_order_id body) (razorpay_payment_id body) =
               Some (razorpay_signature body) \<longrightarrow>
               listings (snd (snd (verify_payment rt now body orderId sess s))) L =
                 Some (vp\<lparr>vp_stock := vp_stock vp - of_int q\<rparr>) \<and>
               listings (snd (snd (verify_payment rt now' body orderId sess
                           (snd (snd (verify_payment rt now body orderId sess s)))))) L =
                 Some (vp\<lparr>vp_stock := vp_stock vp - 2 * of_int q\<rparr>))"
proof -
  define qs where
    "qs = map item_qty (filter (\<lambda>it. item_vendorProductId it = L) (ord_items ord))"
  define q where "q = sum_list qs"
  have nonneg: "\<forall>x \<in> set qs. 0 \<le> x" using assms(6) by (auto simp: qs_def)
  then have q0: "0 \<le> q" by (simp add: q_def sum_list_nonneg)
  have big: "2 * q - n \<le> 9007199254740992" using assms(8) by (simp add: q_def qs_def)
  have once: "foldl (\<lambda>stock d. to_double (stock + d)) (of_int n) (map (\<lambda>x. - of_int x) qs) =
              of_int (n - q)"
    unfolding q_def using nonneg assms(7) big q0
    by (intro decrements_exact) (simp_all add: q_def)
  have twice: "foldl (\<lambda>stock d. to_double (stock + d)) (of_int (n - q)) (map (\<lambda>x. - of_int x) qs) =
               of_int (n - q - q)"
    unfolding q_def using nonneg assms(7) big q0
    by (intro decrements_exact) (simp_all add: q_def)
  have w1: "bulkWrite to_double (listings s) (stockUpdates ord') L =
            Some (vp\<lparr>vp_stock := of_int (n - q)\<rparr>)"
    if "ord_items ord' = ord_items ord" for ord'
    using bulkWrite_stock[of "listings s" L vp to_double "stockUpdates ord'", OF assms(2)] that once
    by (simp add: stockUpdates_lines assms(5) qs_def)
  have w2: "bulkWrite to_double (bulkWrite to_double (listings s) (stockUpdates ord))
              (stockUpdates ord') L = Some (vp\<lparr>vp_stock := of_int (n - q - q)\<rparr>)"
    if "ord_items ord' = ord_items ord" for ord'
    using bulkWrite_stock[of "bulkWrite to_double (listings s) (stockUpdates ord)" L
        "vp\<lparr>vp_stock := of_int (n - q)\<rparr>" to_double "stockUpdates ord'", OF w1[OF refl]] that twice
    by (simp add: stockUpdates_lines qs_def)
  have v1: "real_of_int (n - q) = vp_stock vp - of_int q"
    and v2: "real_of_int (n - q - q) = vp_stock vp - 2 * of_int q"
    by (simp_all add: assms(5))
  show ?thesis
    unfolding Let_def q_def[symmetric, unfolded qs_def] v1[symmetric] v2[symmetric]
    using assms(1,3,4) w1[OF refl] w2
    by (simp add: demo_checkout_cases verify_payment_cases)
qed

text \<open>Two lamps of listing A are paid for: its stock goes from 5 to 3.\<close>

theorem confirmation_decrements_stock_each_time_witness:
  "orders shop_ordered order1 = Some pending1 \<and>
   sess_user customer_session = Some customer \<and>
   ord_userId pending1 = customer \<and>
   rnd js = to_double \<and>
   map_option vp_stock (listings shop_ordered listingA) = Some (of_int 5) \<and>
   map item_qty (filter (\<lambda>it. item_vendorProductId it = listingA) (ord_items pending1)) = [2] \<and>
   map_option vp_stock
     (listings (snd (snd (demo_checkout js ''1700000000001'' order1 customer_session shop_ordered)))
        listingA) = Some 3"
proof -
  have h: "orders shop_ordered order1 = Some pending1"
    "listings shop_ordered listingA =
       Some \<lparr>vp_vendorId = vendor1, vp_productId = product1, vp_price = 100, vp_stock = 5\<rparr>"
    "sess_user customer_session = Some customer"
    "rnd js = to_double"
    "vp_stock \<lparr>vp_vendorId = vendor1, vp_productId = product1, vp_price = 100, vp_stock = 5\<rparr> =
       of_int 5"
    "\<forall>it \<in> set (ord_items pending1). 0 \<le> item_qty it"
    "(5::int) \<le> 9007199254740992"
    "2 * sum_list (map item_qty
           (filter (\<lambda>it. item_vendorProductId it = listingA) (ord_items pending1))) - 5
     \<le> 9007199254740992"
    by (simp_all add: shop_defs ids)
  have u: "ord_userId pending1 = customer" by (simp add: shop_defs)
  have q: "map item_qty (filter (\<lambda>it. item_vendorProductId it = listingA)
             (ord_items pending1)) = [2]"
    by (simp add: shop_defs ids)
  from confirmation_decrements_stock_each_time[OF h, of "''1700000000001''"
      "''1700000000002''" valid_body] u q
  show ?thesis using h by (simp add: Let_def)
qed

text \<open>
  Beyond \<open>2 ^ 53\<close> the decrement is rounded: one lamp is paid for out of a stock of
  \<open>2 ^ 53 + 2\<close>, and the stock that is stored is \<open>2 ^ 53\<close>, two less.
\<close>

lemma large_stock_loses_two:
  "map_option vp_stock (bulkWrite to_double warehouse (stockUpdates single_order) listingA) =
     Some (9007199254740994 - 2)"
  by (simp add: warehouse_def single_order_def stockUpdates_def to_double_eval)

text \<open>
  Against claim C1 as stated: the order holds one line of two lamps of listing A, whose
  stock is 5. After the first confirmation the order is paid; nothing resets it; the
  second confirmation leaves a stock of 1, four less than before and not two.
\<close>

theorem repeated_confirmation_decrements_twice:
  "map_option vp_stock (listings shop_ordered listingA) = Some 5 \<and>
   map item_qty (filter (\<lambda>it. item_vendorProductId it = listingA) (ord_items pending1)) = [2] \<and>
   fst (demo_checkout js ''1700000000001'' order1 customer_session shop_ordered) =
     Inr (DemoPaymentSuccessful order1) \<and>
   map_option ord_status
     (orders (snd (snd (demo_checkout js ''1700000000001'' order1 customer_session shop_ordered)))
        order1) = Some Paid \<and>
   map_option vp_stock
     (listings
        (snd (snd (demo_checkout js ''1700000000002'' order1 customer_session
           (snd (snd (demo_checkout js ''1700000000001'' order1 customer_session shop_ordered))))))
        listingA) = Some 1"
  by (simp add: demo_checkout_example second_checkout_example) (simp add: shop_defs ids)

text \<open>
  Claim C9, as the code has it. Neither confirmation route touches the response cache:
  whatever the outcome of the request, each of the four caches holds after it exactly the
  entries it held before, the cached product and vendor views among them.
\<close>

theorem confirmation_leaves_cache:
  "cache_short (snd (snd (demo_checkout rt now orderId sess s))) = cache_short s \<and>
   cache_medium (snd (snd (demo_checkout rt now orderId sess s))) = cache_medium s \<and>
   cache_long (snd (snd (demo_checkout rt now orderId sess s))) = cache_long s \<and>
   cache_session (snd (snd (demo_checkout rt now orderId sess s))) = cache_session s \<and>
   cache_short (snd (snd (verify_payment rt now body orderId sess s))) = cache_short s \<and>
   cache_medium (snd (snd (verify_payment rt now body orderId sess s))) = cache_medium s \<and>
   cache_long (snd (snd (verify_payment rt now body orderId sess s))) = cache_long s \<and>
   cache_session (snd (snd (verify_payment rt now body orderId sess s))) = cache_session s"
  by (simp add: demo_checkout_cases verify_payment_cases split: option.splits)

theorem confirmation_leaves_cache_witness:
  "cache_medium (snd (snd (verify_payment js ''1700000000001'' valid_body order1 stranger_session
      shop_ordered))) ''products_1_10_all_none'' = Some ''cached product list''"
  using confirmation_leaves_cache[of js "''1700000000001''" order1 stranger_session shop_ordered
      valid_body]
  by (simp add: shop_defs)

text \<open>
  Against claim C9 as stated: the product list was cached before the checkout; the
  checkout succeeds and takes two lamps from the stock of listing A; the cached product
  list is still in the cache.
\<close>

theorem cache_survives_confirmation:
  "cache_medium shop_ordered ''products_1_10_all_none'' = Some ''cached product list'' \<and>
   fst (demo_checkout js ''1700000000001'' order1 customer_session shop_ordered) =
     Inr (DemoPaymentSuccessful order1) \<and>
   map_option vp_stock
     (listings (snd (snd (demo_checkout js ''1700000000001'' order1 customer_session shop_ordered)))
        listingA) = Some 3 \<and>
   cache_medium (snd (snd (demo_checkout js ''1700000000001'' order1 customer_session shop_ordered)))
     ''products_1_10_all_none'' = Some ''cached product list''"
  by (simp add: demo_checkout_example) (simp add: shop_defs ids)

text \<open>
  Claim C2 asks for one payout entry per vendor, stored with a payment record, each with
  status \<^verbatim>\<open>pending\<close>. The confirmation routes of the orders route store none: after
  \<^verbatim>\<open>demo-checkout\<close> and after \<^verbatim>\<open>verify-payment\<close> the payments collection is what it was.
\<close>

theorem confirmation_persists_no_payout:
  "payments (snd (snd (demo_checkout rt now orderId sess s))) = payments s \<and>
   payments (snd (snd (verify_payment rt now body orderId sess s))) = payments s"
  by (simp add: demo_checkout_cases verify_payment_cases split: option.splits)

text \<open>The paid order has lines of two vendors and the payments collection is empty.\<close>

theorem confirmation_persists_no_payout_witness:
  "fst (demo_checkout js ''1700000000001'' order1 customer_session shop_ordered) =
     Inr (DemoPaymentSuccessful order1) \<and>
   map_option ord_status
     (orders (snd (snd (demo_checkout js ''1700000000001'' order1 customer_session shop_ordered)))
        order1) = Some Paid \<and>
   map item_vendorId (ord_items pending1) = [vendor1, vendor2] \<and>
   payments (snd (snd (demo_checkout js ''1700000000001'' order1 customer_session shop_ordered))) = []"
  using confirmation_persists_no_payout[of js "''1700000000001''" order1 customer_session
      shop_ordered valid_body]
  by (simp add: demo_checkout_example) (simp add: shop_defs)

text \<open>
  Claim C10 says that \<^verbatim>\<open>verify-payment\<close> succeeds for any signed-in caller with a valid
  signature. The route does not ask who owns the order, marks it paid and takes the stock,
  as the claim says; then the \<^verbatim>\<open>save\<close> of its payment record throws, so the reply is the
  error of the \<^verbatim>\<open>catch\<close> block and the caller's cart is as it was. \<^verbatim>\<open>demo-checkout\<close> refuses a
  caller who is not the owner.
\<close>

theorem verify_payment_fails_after_commit:
  assumes "sess_user sess = Some uid"
    and "expectedSignature rt (razorpay_order_id body) (razorpay_payment_id body) =
         Some (razorpay_signature body)"
    and "orders s orderId = Some ord"
  shows "verify_payment rt now body orderId sess s =
           (Inl (InternalError ''Payment verification failed''), sess,
            s\<lparr>listings := bulkWrite (rnd rt) (listings s) (stockUpdates ord),
              orders := (orders s)(orderId \<mapsto> ord\<lparr>ord_status := Paid,
                          ord_razorpayPaymentId := Some (razorpay_payment_id body),
                          ord_paidAt := Some now\<rparr>)\<rparr>) \<and>
         (ord_userId ord \<noteq> uid \<longrightarrow>
            demo_checkout rt now orderId sess s = (Inl Forbidden, sess, s))"
  using assms by (simp add: verify_payment_cases demo_checkout_cases)

text \<open>A stranger confirms the customer's order; the stranger's cart keeps its line.\<close>

theorem verify_payment_fails_after_commit_witness:
  "sess_user stranger_session = Some stranger \<and>
   expectedSignature js (razorpay_order_id valid_body) (razorpay_payment_id valid_body) =
     Some (razorpay_signature valid_body) \<and>
   orders shop_ordered order1 = Some pending1 \<and>
   ord_userId pending1 = customer \<and>
   fst (verify_payment js ''1700000000001'' valid_body order1 stranger_session shop_ordered) =
     Inl (InternalError ''Payment verification failed'') \<and>
   fst (snd (verify_payment js ''1700000000001'' valid_body order1 stranger_session shop_ordered)) =
     stranger_session \<and>
   map_option ord_status
     (orders (snd (snd (verify_payment js ''1700000000001'' valid_body order1 stranger_session
        shop_ordered))) order1) = Some Paid \<and>
   map_option vp_stock
     (listings (snd (snd (verify_payment js ''1700000000001'' valid_body order1 stranger_session
        shop_ordered))) listingA) = Some 3 \<and>
   payments (snd (snd (verify_payment js ''1700000000001'' valid_body order1 stranger_session
        shop_ordered))) = [] \<and>
   demo_checkout js ''1700000000001'' order1 stranger_session shop_ordered =
     (Inl Forbidden, stranger_session, shop_ordered)"
proof -
  have h: "sess_user stranger_session = Some stranger"
    "expectedSignature js (razorpay_order_id valid_body) (razorpay_payment_id valid_body) =
       Some (razorpay_signature valid_body)"
    "orders shop_ordered order1 = Some pending1"
    by (simp_all add: shop_defs expectedSignature_def)
  have u: "ord_userId pending1 = customer" "ord_userId pending1 \<noteq> stranger"
    by (simp_all add: shop_defs ids)
  from verify_payment_fails_after_commit[OF h, of "''1700000000001''"] u
  show ?thesis using h by (simp add: stockUpdates_def) (simp add: shop_defs ids to_double_numeral)
qed

section \<open>A wrong signature\<close>

text \<open>
  Claim C8. A request whose signature is not the HMAC of \<^verbatim>\<open>order_id|payment_id\<close> under the
  secret fails on both verification routes and leaves the session and the whole state as
  they were: the order keeps its status, no stock moves, no payment record and no payout is
  written. For a signed-in caller and a configured secret the error is the 400 of an
  invalid signature.
\<close>

theorem invalid_signature_changes_nothing:
  assumes "expectedSignature rt (razorpay_order_id body) (razorpay_payment_id body) \<noteq>
           Some (razorpay_signature body)"
  shows "\<exists>e. verify_payment rt now body orderId sess s = (Inl e, sess, s) \<and>
             payments_verify rt body sess s = (Inl e, sess, s) \<and>
             (sess_user sess \<noteq> None \<and> RAZORPAY_KEY_SECRET rt \<noteq> None \<longrightarrow>
                e = InvalidSignature \<and> http_status e = 400)"
proof (cases "sess_user sess")
  case None
  then show ?thesis by (simp add: verify_payment_def payments_verify_def)
next
  case (Some uid)
  show ?thesis
  proof (cases "expectedSignature rt (razorpay_order_id body) (razorpay_payment_id body)")
    case None
    then show ?thesis
      using Some by (simp add: verify_payment_def payments_verify_def expectedSignature_def)
  next
    case (Some expected)
    then have "expected \<noteq> razorpay_signature body" using assms by simp
    then show ?thesis
      using Some \<open>sess_user sess = Some uid\<close>
      by (simp add: verify_payment_def payments_verify_def)
  qed
qed

text \<open>A forged signature on the pending order of the shop.\<close>

theorem invalid_signature_changes_nothing_witness:
  "expectedSignature js (razorpay_order_id forged_body) (razorpay_payment_id forged_body) \<noteq>
     Some (razorpay_signature forged_body) \<and>
   map_option ord_status (orders shop_ordered order1) = Some Pending \<and>
   verify_payment js ''1700000000001'' forged_body order1 customer_session shop_ordered =
     (Inl InvalidSignature, customer_session, shop_ordered) \<and>
   payments_verify js forged_body customer_session shop_ordered =
     (Inl InvalidSignature, customer_session, shop_ordered)"
proof -
  have h: "expectedSignature js (razorpay_order_id forged_body) (razorpay_payment_id forged_body) \<noteq>
     Some (razorpay_signature forged_body)"
    by (simp add: expectedSignature_def shop_defs)
  have c: "sess_user customer_session \<noteq> None \<and> RAZORPAY_KEY_SECRET js \<noteq> None"
    by (simp add: shop_defs)
  from invalid_signature_changes_nothing[OF h, of "''1700000000001''" order1 customer_session
      shop_ordered] c
  have "verify_payment js ''1700000000001'' forged_body order1 customer_session shop_ordered =
     (Inl InvalidSignature, customer_session, shop_ordered) \<and>
   payments_verify js forged_body customer_session shop_ordered =
     (Inl InvalidSignature, customer_session, shop_ordered)"
    by blast
  moreover have "map_option ord_status (orders shop_ordered order1) = Some Pending"
    by (simp add: shop_defs)
  ultimately show ?thesis using h by blast
qed

section \<open>Vendor payouts\<close>




















section \<open>The lines of each vendor in the orders route\<close>








section \<open>Payouts in double arithmetic\<close>






















section \<open>The payments route stores the payouts\<close>

text \<open>
  \<^verbatim>\<open>POST /payments/verify\<close> with a valid signature, for a payment record that was created
  valid and an order whose vendors exist: the payouts are stored in the payment record,
  one entry per vendor, each \<^verbatim>\<open>pending\<close>, and the order is paid.
\<close>

lemma payments_verify_attaches_payouts:
  assumes "sess_user sess = Some uid"
    and "expectedSignature rt (razorpay_order_id body) (razorpay_payment_id body) =
         Some (razorpay_signature body)"
    and "find (\<lambda>p. pay_razorpayOrderId p = Some (razorpay_order_id body)) (payments s) = Some p"
    and "orders s (pay_orderId p) = Some ord"
    and "list_all (\<lambda>it. vendors s (item_vendorId it) \<noteq> None) (ord_items ord)"
    and "pay_userId p \<noteq> None" "razorpay_order_id body \<noteq> []"
  shows "payments_verify rt body sess s =
           (Inr (PaymentVerified (pay_orderId p)), sess,
            s\<lparr>payments :=
                 replace_first (\<lambda>p. pay_razorpayOrderId p = Some (razorpay_order_id body))
                   (p\<lparr>pay_razorpayPaymentId := Some (razorpay_payment_id body),
                      pay_razorpaySignature := Some (razorpay_signature body),
                      pay_status := ''paid'',
                      pay_vendorPayouts := vendorPayouts (rnd rt) (ord_items ord)\<rparr>) (payments s),
              orders := (orders s)(pay_orderId p \<mapsto> ord\<lparr>ord_status := Paid\<rparr>)\<rparr>)"
proof -
  have k: "pay_razorpayOrderId p = Some (razorpay_order_id body)"
    using assms(3) by (auto simp: find_Some_iff)
  have "list_all (\<lambda>po. po_status po \<in> set [''pending'', ''processed'', ''failed''])
          (vendorPayouts (rnd rt) (ord_items ord))"
    by (simp add: vendorPayouts_def payout_entry_def Let_def list_all_iff)
  then show ?thesis
    using assms k by (simp add: payments_verify_def validate_payment_def Let_def)
qed

section \<open>Reviews\<close>

lemma create_review_unchanged_on_error:
  "create_review body sess s = (Inl e, s') \<Longrightarrow> s' = s"
  by (auto simp: create_review_def Let_def split: option.splits if_splits)

lemma create_review_total:
  "(\<exists>rv s'. create_review body sess s = (Inr (ReviewCreated rv), s')) \<or>
   (\<exists>e. create_review body sess s = (Inl e, s))"
  by (auto simp: create_review_def Let_def split: option.splits if_splits)

lemma create_review_success:
  assumes "create_review body sess s = (Inr resp, s')"
  shows "\<exists>ord it. sess_user sess = Some (ord_userId ord) \<and>
           orders s (rb_orderId body) = Some ord \<and> ord_status ord = Paid \<and>
           it \<in> set (ord_items ord) \<and> item_productId it = rb_productId body \<and>
           item_vendorId it = rb_vendorId body"
proof -
  from assms obtain uid where uid: "sess_user sess = Some uid"
    by (auto simp: create_review_def split: option.splits)
  from assms uid obtain ord where ord: "orders s (rb_orderId body) = Some ord"
    by (auto simp: create_review_def split: option.splits if_splits)
  from assms uid ord have own: "ord_userId ord = uid" "ord_status ord = Paid"
    by (auto simp: create_review_def split: option.splits if_splits)
  from assms uid ord own obtain it where
    it: "find (\<lambda>it. item_productId it = rb_productId body \<and> item_vendorId it = rb_vendorId body)
           (ord_items ord) = Some it"
    by (auto simp: create_review_def split: option.splits if_splits)
  then have "it \<in> set (ord_items ord) \<and> item_productId it = rb_productId body \<and>
             item_vendorId it = rb_vendorId body"
    by (auto simp: find_Some_iff)
  with uid ord own show ?thesis by blast
qed

text \<open>
  Claim C5. A review is created only for a caller who has a paid order that holds the
  reviewed product from the reviewed vendor: the order named in the request, owned by the
  caller, with status \<^verbatim>\<open>paid\<close>. When the caller has no paid, shipped or delivered order with
  that product and vendor, the request fails and the state, its reviews among it, is
  unchanged.
\<close>

theorem review_requires_paid_purchase:
  "(create_review body sess s = (Inr resp, s') \<longrightarrow>
      (\<exists>ord. sess_user sess = Some (ord_userId ord) \<and> orders s (rb_orderId body) = Some ord \<and>
             ord_status ord = Paid \<and>
             (\<exists>it \<in> set (ord_items ord). item_productId it = rb_productId body \<and>
                  item_vendorId it = rb_vendorId body))) \<and>
   (\<not> (\<exists>oid ord. sess_user sess = Some (ord_userId ord) \<and> orders s oid = Some ord \<and>
             ord_status ord \<in> {Paid, Shipped, Delivered} \<and>
             (\<exists>it \<in> set (ord_items ord). item_productId it = rb_productId body \<and>
                  item_vendorId it = rb_vendorId body)) \<longrightarrow>
      (\<exists>e. create_review body sess s = (Inl e, s)))"
proof (intro conjI impI)
  assume "create_review body sess s = (Inr resp, s')"
  from create_review_success[OF this]
  show "\<exists>ord. sess_user sess = Some (ord_userId ord) \<and> orders s (rb_orderId body) = Some ord \<and>
             ord_status ord = Paid \<and>
             (\<exists>it \<in> set (ord_items ord). item_productId it = rb_productId body \<and>
                  item_vendorId it = rb_vendorId body)"
    by blast
next
  assume no: "\<not> (\<exists>oid ord. sess_user sess = Some (ord_userId ord) \<and> orders s oid = Some ord \<and>
             ord_status ord \<in> {Paid, Shipped, Delivered} \<and>
             (\<exists>it \<in> set (ord_items ord). item_productId it = rb_productId body \<and>
                  item_vendorId it = rb_vendorId body))"
  have "\<not> (\<exists>rv s'. create_review body sess s = (Inr (ReviewCreated rv), s'))"
  proof
    assume "\<exists>rv s'. create_review body sess s = (Inr (ReviewCreated rv), s')"
    then obtain rv s' where "create_review body sess s = (Inr (ReviewCreated rv), s')" by blast
    from create_review_success[OF this] no show False by blast
  qed
  with create_review_total[of body sess s]
  show "\<exists>e. create_review body sess s = (Inl e, s)" by blast
qed

text \<open>
  The index keeps its promise: a collection with at most one review per user, order and
  product is such a collection after every request.
\<close>

lemma reviews_stay_unique:
  assumes "distinct (map (\<lambda>x. (rev_userId x, rev_orderId x, rev_productId x)) (reviews s))"
  shows "distinct (map (\<lambda>x. (rev_userId x, rev_orderId x, rev_productId x))
           (reviews (snd (create_review body sess s))))"
  using assms
  by (auto simp: create_review_def Let_def duplicate_key_def list_ex_iff invalidateCache_reviews_def
      split: option.splits if_splits)

text \<open>
  Claim C6 asks that a second review for the same user, order and product be refused as a
  conflict, status 400. The route looks for a review of the same user, order, product and
  vendor; the unique index has no vendor. When the order holds the product from two
  vendors and the review of one exists, the review of the other passes the route's check,
  is refused by the index, and the reply is the 500 of the \<^verbatim>\<open>catch\<close> block. No second review
  is stored.
\<close>

theorem second_vendor_review_is_internal_error:
  assumes valid: "sess_user sess = Some uid"
      "isMongoId (rb_orderId body)" "isMongoId (rb_productId body)" "isMongoId (rb_vendorId body)"
      "1 \<le> rb_rating body" "rb_rating body \<le> 5"
    and paid: "orders s (rb_orderId body) = Some ord" "ord_userId ord = uid" "ord_status ord = Paid"
    and line: "it \<in> set (ord_items ord)" "item_productId it = rb_productId body"
        "item_vendorId it = rb_vendorId body"
    and other: "x \<in> set (reviews s)" "rev_userId x = uid" "rev_orderId x = rb_orderId body"
        "rev_productId x = rb_productId body"
    and fresh: "\<not> list_ex (\<lambda>x. rev_userId x = uid \<and> rev_orderId x = rb_orderId body \<and>
                    rev_productId x = rb_productId body \<and> rev_vendorId x = rb_vendorId body)
            (reviews s)"
  shows "create_review body sess s = (Inl (InternalError ''Failed to create review''), s) \<and>
         http_status (InternalError ''Failed to create review'') = 500 \<and>
         http_status ReviewExists = 400"
proof -
  have "find (\<lambda>it. item_productId it = rb_productId body \<and> item_vendorId it = rb_vendorId body)
          (ord_items ord) \<noteq> None"
    using line by (auto simp: find_None_iff)
  then obtain it' where f: "find (\<lambda>it. item_productId it = rb_productId body \<and>
      item_vendorId it = rb_vendorId body) (ord_items ord) = Some it'" by blast
  have d: "duplicate_key \<lparr>rev_userId = uid, rev_orderId = rb_orderId body,
      rev_vendorId = rb_vendorId body, rev_productId = rb_productId body,
      rev_vendorProductId = item_vendorProductId it', rev_rating = rb_rating body,
      rev_comment = (case rb_comment body of None \<Rightarrow> [] | Some c \<Rightarrow> trim c)\<rparr> (reviews s)"
    using other by (auto simp: duplicate_key_def list_ex_iff)
  show ?thesis
    using valid paid fresh f d by (simp add: create_review_def Let_def)
qed

lemma first_review_example:
  "fst (create_review (review_of vendor1) customer_session shop_paid) =
     Inr (ReviewCreated first_review) \<and>
   reviews (snd (create_review (review_of vendor1) customer_session shop_paid)) = [first_review]"
  by (simp add: create_review_def isMongoId_def trim_def isSpace_def duplicate_key_def
      invalidateCache_reviews_def Let_def shop_defs ids)

theorem review_requires_paid_purchase_witness:
  "\<not> (\<exists>oid ord. sess_user stranger_session = Some (ord_userId ord) \<and>
          orders shop_paid oid = Some ord \<and> ord_status ord \<in> {Paid, Shipped, Delivered} \<and>
          (\<exists>it \<in> set (ord_items ord). item_productId it = rb_productId (review_of vendor1) \<and>
               item_vendorId it = rb_vendorId (review_of vendor1))) \<and>
   create_review (review_of vendor1) stranger_session shop_paid = (Inl OrderNotPaid, shop_paid) \<and>
   fst (create_review (review_of vendor1) customer_session shop_paid) =
     Inr (ReviewCreated first_review) \<and>
   map_option ord_status (orders shop_paid (rb_orderId (review_of vendor1))) = Some Paid"
proof -
  have no: "\<not> (\<exists>oid ord. sess_user stranger_session = Some (ord_userId ord) \<and>
          orders shop_paid oid = Some ord \<and> ord_status ord \<in> {Paid, Shipped, Delivered} \<and>
          (\<exists>it \<in> set (ord_items ord). item_productId it = rb_productId (review_of vendor1) \<and>
               item_vendorId it = rb_vendorId (review_of vendor1)))"
    by (auto simp: shop_defs ids split: if_splits)
  from review_requires_paid_purchase[of "review_of vendor1" stranger_session shop_paid] no
  obtain e where e: "create_review (review_of vendor1) stranger_session shop_paid = (Inl e, shop_paid)"
    by blast
  have "fst (create_review (review_of vendor1) stranger_session shop_paid) = Inl OrderNotPaid"
    by (simp add: create_review_def isMongoId_def shop_defs ids)
  with e have "create_review (review_of vendor1) stranger_session shop_paid =
      (Inl OrderNotPaid, shop_paid)" by simp
  moreover have "map_option ord_status (orders shop_paid (rb_orderId (review_of vendor1))) = Some Paid"
    by (simp add: shop_defs)
  ultimately show ?thesis using no first_review_example by blast
qed

theorem second_vendor_review_is_internal_error_witness:
  "map (\<lambda>it. (item_productId it, item_vendorId it)) (ord_items paid1) =
     [(product1, vendor1), (product1, vendor2)] \<and>
   reviews shop_reviewed = [first_review] \<and>
   rev_vendorId first_review = vendor1 \<and>
   create_review (review_of vendor1) customer_session shop_reviewed =
     (Inl ReviewExists, shop_reviewed) \<and>
   create_review (review_of vendor2) customer_session shop_reviewed =
     (Inl (InternalError ''Failed to create review''), shop_reviewed)"
proof -
  let ?it = "\<lparr>item_vendorProductId = listingB, item_productId = product1, item_vendorId = vendor2,
       item_price = 2, item_qty = 1\<rparr>"
  have valid: "sess_user customer_session = Some customer"
      "isMongoId (rb_orderId (review_of vendor2))" "isMongoId (rb_productId (review_of vendor2))"
      "isMongoId (rb_vendorId (review_of vendor2))"
      "1 \<le> rb_rating (review_of vendor2)" "rb_rating (review_of vendor2) \<le> 5"
    by (simp_all add: isMongoId_def shop_defs ids)
  have paid: "orders shop_reviewed (rb_orderId (review_of vendor2)) = Some paid1"
      "ord_userId paid1 = customer" "ord_status paid1 = Paid"
    by (simp_all add: shop_defs)
  have line: "?it \<in> set (ord_items paid1)" "item_productId ?it = rb_productId (review_of vendor2)"
      "item_vendorId ?it = rb_vendorId (review_of vendor2)"
    by (simp_all add: shop_defs)
  have other: "first_review \<in> set (reviews shop_reviewed)" "rev_userId first_review = customer"
      "rev_orderId first_review = rb_orderId (review_of vendor2)"
      "rev_productId first_review = rb_productId (review_of vendor2)"
    by (simp_all add: shop_defs)
  have fresh: "\<not> list_ex (\<lambda>x. rev_userId x = customer \<and> rev_orderId x = rb_orderId (review_of vendor2) \<and>
                    rev_productId x = rb_productId (review_of vendor2) \<and>
                    rev_vendorId x = rb_vendorId (review_of vendor2))
            (reviews shop_reviewed)"
    by (simp add: shop_defs ids)
  from second_vendor_review_is_internal_error[OF valid paid line other fresh]
  have "create_review (review_of vendor2) customer_session shop_reviewed =
     (Inl (InternalError ''Failed to create review''), shop_reviewed)" by simp
  moreover have "create_review (review_of vendor1) customer_session shop_reviewed =
     (Inl ReviewExists, shop_reviewed)"
    by (simp add: create_review_def isMongoId_def Let_def shop_defs ids)
  ultimately show ?thesis by (simp add: shop_defs)
qed

end
